theory Spec2Isabelle
  imports Complex_Main "HOL-Library.Word" "HOL-Library.Sublist"
begin

section \<open>The chat engine of the desktop client (hooks/useChatEngine.ts)\<close>

subsection \<open>Strings\<close>

text \<open>
  A TypeScript string is a sequence of UTF-16 code units; \<open>text.length\<close> counts them
  and \<open>trim\<close> inspects them one by one. A string is therefore a list of 16-bit words.
\<close>

type_synonym jsstring = "16 word list"

definition ascii :: "string \<Rightarrow> jsstring" where
  "ascii s = map (\<lambda>c. of_nat (of_char c)) s"

text \<open>
  \<open>String.prototype.trim\<close> strips the code points that ECMAScript calls WhiteSpace or
  LineTerminator from both ends.
\<close>

definition isWhiteSpace :: "16 word \<Rightarrow> bool" where
  "isWhiteSpace c =
     (c = 0x0009 \<or> c = 0x000A \<or> c = 0x000B \<or> c = 0x000C \<or> c = 0x000D \<or> c = 0x0020
      \<or> c = 0x00A0 \<or> c = 0x1680 \<or> (0x2000 \<le> c \<and> c \<le> 0x200A)
      \<or> c = 0x2028 \<or> c = 0x2029 \<or> c = 0x202F \<or> c = 0x205F \<or> c = 0x3000 \<or> c = 0xFEFF)"

definition trim :: "jsstring \<Rightarrow> jsstring" where
  "trim s = rev (dropWhile isWhiteSpace (rev (dropWhile isWhiteSpace s)))"

subsection \<open>Messages (types/message.ts)\<close>

text \<open>
  Modelled from the spec: the declarations of \<open>Message\<close> and of its content blocks live in
  types/message.ts, which is not among the sources. The fields are the ones the engine
  reads and writes, with the optional ones (\<open>id\<close>, \<open>display\<close>, \<open>sendToLLM\<close>) as options.
\<close>

datatype json =
    JNull
  | JBool bool
  | JNum int
  | JStr jsstring
  | JArr "json list"
  | JObj "(jsstring \<times> json) list"

datatype role = User | Assistant

datatype callStatus = Success | Error

datatype 'a toolCallResult =
  ToolCallResult (status: callStatus) (val: "'a option") (err: "jsstring option")

datatype toolCall = ToolCall (toolName: jsstring) (arguments: json)

datatype contentType =
    Text
  | Image
  | ToolRequest
  | ToolResponse
  | ToolConfirmationRequest
  | ContextLengthExceeded
  | SummarizationRequested

datatype messageContent =
    TextContent jsstring
  | ImageContent jsstring jsstring
  | ToolRequestMessageContent jsstring "toolCall toolCallResult"
  | ToolResponseMessageContent jsstring "json toolCallResult"
  | ToolConfirmationRequestMessageContent jsstring jsstring json "jsstring option"
  | ContextLengthExceededContent jsstring
  | SummarizationRequestedContent jsstring

fun type_of :: "messageContent \<Rightarrow> contentType" where
  "type_of (TextContent _) = Text"
| "type_of (ImageContent _ _) = Image"
| "type_of (ToolRequestMessageContent _ _) = ToolRequest"
| "type_of (ToolResponseMessageContent _ _) = ToolResponse"
| "type_of (ToolConfirmationRequestMessageContent _ _ _ _) = ToolConfirmationRequest"
| "type_of (ContextLengthExceededContent _) = ContextLengthExceeded"
| "type_of (SummarizationRequestedContent _) = SummarizationRequested"

record message =
  id_opt :: "jsstring option"
  role :: role
  created :: int
  content :: "messageContent list"
  display :: "bool option"
  sendToLLM :: "bool option"

subsection \<open>isUserMessage\<close>

definition isUserMessage :: "message \<Rightarrow> bool" where
  "isUserMessage m =
     (if role m = Assistant then False
      else if list_all (\<lambda>c. type_of c = ToolConfirmationRequest) (content m) then False
      else True)"

subsection \<open>The state of the engine\<close>

text \<open>
  Modelled from the spec: the lifecycle states of a stream session; hooks/useMessageStream.ts
  and types/chatState.ts are not among the sources.
\<close>

datatype chatState = Idle | Streaming | WaitingForUserInput | Failed

text \<open>
  Calls that leave the engine for a collaborator and return nothing are recorded in a log,
  oldest first.
\<close>

datatype effect =
    DispatchEvent jsstring
  | ShowNotification
  | OnMessageStreamFinish
  | OnMessageSent
  | OnSummaryReset
  | StorageAddMessage jsstring

text \<open>
  The callback scheduled by \<open>setTimeout\<close> in \<open>handleSubmit\<close>: the message it will append
  and what the \<open>append\<close> it closed over saw (\<open>messages.length === 0 && chat.messages.length === 0\<close>).
\<close>

record timer =
  delay :: nat
  userMessage :: message
  firstOfSession :: bool

record engine =
  chat_id :: jsstring
  chat_messages :: "message list"
  enableLocalStorage :: bool
  messages :: "message list"
  ancestorMessages :: "message list"
  input :: jsstring
  chatState :: chatState
  lastInteractionTime :: int
  sessionTokenCount :: int
  sessionInputTokens :: int
  sessionOutputTokens :: int
  powerSaveBlocker :: bool
  timers :: "timer list"
  log :: "effect list"

text \<open>\<open>window.electron.startPowerSaveBlocker\<close> and \<open>stopPowerSaveBlocker\<close>.\<close>

definition startPowerSaveBlocker :: "engine \<Rightarrow> engine" where
  "startPowerSaveBlocker s = s\<lparr>powerSaveBlocker := True\<rparr>"

definition stopPowerSaveBlocker :: "engine \<Rightarrow> engine" where
  "stopPowerSaveBlocker s = s\<lparr>powerSaveBlocker := False\<rparr>"

definition emit :: "effect \<Rightarrow> engine \<Rightarrow> engine" where
  "emit e s = s\<lparr>log := log s @ [e]\<rparr>"

text \<open>
  Modelled from the spec: \<open>stop\<close>, \<open>setMessages\<close>, \<open>setInput\<close> and \<open>append\<close> of
  hooks/useMessageStream.ts, which is not among the sources. \<open>stop\<close> cancels the open
  exchange and the lifecycle state becomes Idle; \<open>setMessages\<close> replaces the tail;
  \<open>setInput\<close> hands a text to the input surface; \<open>append\<close> inserts at the tail and opens
  a stream session.
\<close>

definition stop :: "engine \<Rightarrow> engine" where
  "stop s = s\<lparr>chatState := Idle\<rparr>"

definition setMessages :: "message list \<Rightarrow> engine \<Rightarrow> engine" where
  "setMessages ms s = s\<lparr>messages := ms\<rparr>"

definition setInput :: "jsstring \<Rightarrow> engine \<Rightarrow> engine" where
  "setInput t s = s\<lparr>input := t\<rparr>"

definition originalAppend :: "message \<Rightarrow> engine \<Rightarrow> engine" where
  "originalAppend m s = s\<lparr>messages := messages s @ [m], chatState := Streaming\<rparr>"

subsection \<open>onStopGoose\<close>

definition notification :: jsstring where
  "notification = ascii ''Interrupted by the user to make a correction''"

text \<open>\<open>messages[messages.length - 1]\<close>, which is \<open>undefined\<close> on an empty array.\<close>

definition lastMessage :: "message list \<Rightarrow> message option" where
  "lastMessage ms = (if ms = [] then None else Some (last ms))"

text \<open>
  The \<open>filter\<close> and \<open>map\<close> that collect the pending tool calls of a message: a
  block that passes the filter is a tool request, or else a confirmation request, from
  which the tool call is rebuilt.
\<close>

definition isRequest :: "messageContent \<Rightarrow> bool" where
  "isRequest c = (type_of c = ToolRequest \<or> type_of c = ToolConfirmationRequest)"

fun requestEntry :: "messageContent \<Rightarrow> (jsstring \<times> toolCall toolCallResult) option" where
  "requestEntry (ToolRequestMessageContent i tc) = Some (i, tc)"
| "requestEntry (ToolConfirmationRequestMessageContent i n a p) =
     Some (i, ToolCallResult Success (Some (ToolCall n a)) None)"
| "requestEntry _ = None"

definition toolRequests :: "message \<Rightarrow> (jsstring \<times> toolCall toolCallResult) list" where
  "toolRequests m = List.map_filter requestEntry (filter isRequest (content m))"

text \<open>The \<open>for\<close> loop that pushes one error response per pending tool call.\<close>

definition pushResponse :: "message \<Rightarrow> jsstring \<times> toolCall toolCallResult \<Rightarrow> message" where
  "pushResponse rm e =
     rm\<lparr>content := content rm
          @ [ToolResponseMessageContent (fst e) (ToolCallResult Error None (Some notification))]\<rparr>"

definition responseMessage :: "int \<Rightarrow> (jsstring \<times> toolCall toolCallResult) list \<Rightarrow> message" where
  "responseMessage t reqs =
     foldl pushResponse
       \<lparr>id_opt = None, role = User, created = t, content = [],
        display = Some True, sendToLLM = Some True\<rparr> reqs"

text \<open>The text block that \<open>find\<close> returns, and \<open>textContent?.text || ''\<close>.\<close>

definition textValue :: "message \<Rightarrow> jsstring" where
  "textValue m =
     (case find (\<lambda>c. type_of c = Text) (content m) of
        Some (TextContent t) \<Rightarrow> t
      | _ \<Rightarrow> [])"

text \<open>
  \<open>onStopGoose\<close>, with the two readings of the clock (\<open>Date.now()\<close>) as arguments: the
  one stored as the last interaction time and the one stamped on the synthesized message.
\<close>

definition onStopGoose :: "int \<Rightarrow> int \<Rightarrow> engine \<Rightarrow> engine" where
  "onStopGoose t1 t2 s0 =
     (let s = stopPowerSaveBlocker ((stop s0)\<lparr>lastInteractionTime := t1\<rparr>);
          msgs = messages s0
      in case lastMessage msgs of
           None \<Rightarrow> s
         | Some lm \<Rightarrow>
             (let isToolResponse = list_ex (\<lambda>c. type_of c = ToolResponse) (content lm)
              in if isUserMessage lm \<and> \<not> isToolResponse then
                   (let s' = setInput (textValue lm) s
                    in if length msgs > 1 then setMessages (butlast msgs) s'
                       else setMessages [] s')
                 else if \<not> isUserMessage lm then
                   (let reqs = toolRequests lm
                    in if length reqs \<noteq> 0
                       then setMessages (msgs @ [responseMessage t2 reqs]) s
                       else s)
                 else s))"

subsection \<open>Callbacks of the stream: onFinish and onError\<close>

text \<open>
  The test \<open>chat.id && chat.id.match(/^\d{8}_\d{6}$/)\<close>: eight decimal digits, an
  underscore and six decimal digits, and nothing before or after.
\<close>

definition isDigit :: "16 word \<Rightarrow> bool" where
  "isDigit c = (0x30 \<le> c \<and> c \<le> 0x39)"

definition isNewSession :: "jsstring \<Rightarrow> bool" where
  "isNewSession cid =
     (cid \<noteq> [] \<and> length cid = 15 \<and> list_all isDigit (take 8 cid) \<and> cid ! 8 = 0x5F
      \<and> list_all isDigit (drop 9 cid))"

definition streamFinishedEvent :: effect where
  "streamFinishedEvent = DispatchEvent (ascii ''message-stream-finished'')"

text \<open>\<open>onFinish\<close> at clock reading \<open>now\<close>; the calls that only write to a log are left out.\<close>

definition onFinish :: "int \<Rightarrow> engine \<Rightarrow> engine" where
  "onFinish now s =
     (let s1 = stopPowerSaveBlocker s;
          timeSinceLastInteraction = now - lastInteractionTime s;
          s2 = (if timeSinceLastInteraction > 60000 then emit ShowNotification s1 else s1);
          s3 = (if isNewSession (chat_id s) then emit streamFinishedEvent s2 else s2)
      in emit OnMessageStreamFinish s3)"

text \<open>\<open>onError\<close> writes the error to the console and does nothing else.\<close>

definition onError :: "engine \<Rightarrow> engine" where
  "onError s = s"

text \<open>
  Modelled from the spec: the terminal events of a stream session (hooks/useMessageStream.ts
  is not among the sources). On success the callback fires and the state becomes Idle; on
  a transport or service error the callback fires and the state becomes Error.
\<close>

definition streamFinished :: "int \<Rightarrow> engine \<Rightarrow> engine" where
  "streamFinished now s = (onFinish now s)\<lparr>chatState := Idle\<rparr>"

definition streamFailed :: "engine \<Rightarrow> engine" where
  "streamFailed s = (onError s)\<lparr>chatState := Failed\<rparr>"

subsection \<open>append and handleSubmit\<close>

text \<open>
  \<open>getTextContent\<close> and \<open>createUserMessage\<close> are imported from types/message.ts, which is
  not among the sources: the functions that call them take them as arguments.
\<close>

definition storeMessageInHistory :: "(message \<Rightarrow> jsstring) \<Rightarrow> message \<Rightarrow> engine \<Rightarrow> engine" where
  "storeMessageInHistory gtc m s =
     (if enableLocalStorage s \<and> isUserMessage m then
        (let txt = gtc m in if txt \<noteq> [] then emit (StorageAddMessage txt) s else s)
      else s)"

text \<open>What \<open>append\<close> reads from the render it was created in.\<close>

definition newSession :: "engine \<Rightarrow> bool" where
  "newSession s = (length (messages s) = 0 \<and> length (chat_messages s) = 0)"

definition append_msg ::
  "(jsstring \<Rightarrow> message) \<Rightarrow> (message \<Rightarrow> jsstring) \<Rightarrow> bool \<Rightarrow> jsstring + message \<Rightarrow> engine \<Rightarrow> engine"
where
  "append_msg cum gtc fresh messageOrString s =
     (let m = (case messageOrString of Inl str \<Rightarrow> cum str | Inr msg \<Rightarrow> msg);
          s1 = storeMessageInHistory gtc m s;
          s2 = (if fresh then emit (DispatchEvent (ascii ''session-created'')) s1 else s1)
      in originalAppend m s2)"

text \<open>
  \<open>handleSubmit\<close>; \<open>reset\<close> tells whether the caller passed \<open>onSummaryReset\<close>. With it the
  append waits in a timer of 150 ms.
\<close>

definition handleSubmit ::
  "(jsstring \<Rightarrow> message) \<Rightarrow> (message \<Rightarrow> jsstring) \<Rightarrow> int \<Rightarrow> jsstring \<Rightarrow> bool \<Rightarrow> engine \<Rightarrow> engine"
where
  "handleSubmit cum gtc now combinedTextFromInput reset s =
     (if trim combinedTextFromInput \<noteq> [] then
        (let s1 = (startPowerSaveBlocker s)\<lparr>lastInteractionTime := now\<rparr>;
             um = cum (trim combinedTextFromInput)
         in if reset then
              (emit OnSummaryReset s1)\<lparr>timers := timers s1
                 @ [\<lparr>delay = 150, userMessage = um, firstOfSession = newSession s\<rparr>]\<rparr>
            else emit OnMessageSent (append_msg cum gtc (newSession s) (Inr um) s1))
      else stopPowerSaveBlocker s)"

text \<open>A timer set by \<open>handleSubmit\<close> fires: the append and the notification it deferred.\<close>

definition fireTimer :: "(jsstring \<Rightarrow> message) \<Rightarrow> (message \<Rightarrow> jsstring) \<Rightarrow> timer \<Rightarrow> engine \<Rightarrow> engine" where
  "fireTimer cum gtc t s =
     emit OnMessageSent (append_msg cum gtc (firstOfSession t) (Inr (userMessage t)) s)"

definition runTimers :: "(jsstring \<Rightarrow> message) \<Rightarrow> (message \<Rightarrow> jsstring) \<Rightarrow> engine \<Rightarrow> engine" where
  "runTimers cum gtc s = foldl (\<lambda>s' t. fireTimer cum gtc t s') (s\<lparr>timers := []\<rparr>) (timers s)"

text \<open>The effect that copies the messages into the chat of the parent component.\<close>

definition syncChat :: "engine \<Rightarrow> engine" where
  "syncChat s = s\<lparr>chat_messages := messages s\<rparr>"

subsection \<open>Token counts\<close>

text \<open>
  \<open>Math.ceil(text.length / 4)\<close>. A length is far below \<open>2 ^ 53\<close> and a division by four is
  exact in binary floating point, so the quotient is the real one.
\<close>

definition estimateTokens :: "jsstring \<Rightarrow> nat" where
  "estimateTokens txt = nat \<lceil>real (length txt) / 4\<rceil>"

text \<open>The body of the \<open>forEach\<close> over the messages, on the pair of running totals.\<close>

definition countTokens :: "(message \<Rightarrow> jsstring) \<Rightarrow> nat \<times> nat \<Rightarrow> message \<Rightarrow> nat \<times> nat" where
  "countTokens gtc acc m =
     (let textContent = gtc m
      in if textContent \<noteq> [] then
           (let tokens = estimateTokens textContent
            in if role m = User then (fst acc + tokens, snd acc)
               else if role m = Assistant then (fst acc, snd acc + tokens)
               else acc)
         else acc)"

definition localTokens :: "(message \<Rightarrow> jsstring) \<Rightarrow> message list \<Rightarrow> nat \<times> nat" where
  "localTokens gtc msgs = foldl (countTokens gtc) (0, 0) msgs"

definition localInputTokens :: "(message \<Rightarrow> jsstring) \<Rightarrow> engine \<Rightarrow> nat" where
  "localInputTokens gtc s = fst (localTokens gtc (messages s))"

definition localOutputTokens :: "(message \<Rightarrow> jsstring) \<Rightarrow> engine \<Rightarrow> nat" where
  "localOutputTokens gtc s = snd (localTokens gtc (messages s))"

text \<open>
  The metadata of a session, from the stream or from \<open>fetchSessionDetails\<close>; a field can
  be missing. \<open>a || b\<close> on numbers takes \<open>b\<close> when \<open>a\<close> is missing or zero.
\<close>

record sessionMetadata =
  totalTokens :: "int option"
  accumulatedInputTokens :: "int option"
  accumulatedOutputTokens :: "int option"

definition orElse :: "int option \<Rightarrow> int \<Rightarrow> int" where
  "orElse a b = (case a of None \<Rightarrow> b | Some n \<Rightarrow> if n = 0 then b else n)"

definition setSessionTokens :: "sessionMetadata \<Rightarrow> engine \<Rightarrow> engine" where
  "setSessionTokens md s =
     s\<lparr>sessionTokenCount := orElse (totalTokens md) 0,
       sessionInputTokens := orElse (accumulatedInputTokens md) 0,
       sessionOutputTokens := orElse (accumulatedOutputTokens md) 0\<rparr>"

text \<open>The effect on \<open>sessionMetadata\<close>, which is \<open>None\<close> until the stream delivers one.\<close>

definition onSessionMetadata :: "sessionMetadata option \<Rightarrow> engine \<Rightarrow> engine" where
  "onSessionMetadata md s = (case md of None \<Rightarrow> s | Some m \<Rightarrow> setSessionTokens m s)"

text \<open>
  \<open>fetchSessionTokens\<close>, run when \<open>chat.id\<close> is not empty; the argument is the answer of
  \<open>fetchSessionDetails\<close>, \<open>None\<close> when it throws.
\<close>

definition fetchSessionTokens :: "sessionMetadata option \<Rightarrow> engine \<Rightarrow> engine" where
  "fetchSessionTokens details s =
     (if chat_id s \<noteq> [] then
        (case details of None \<Rightarrow> s | Some m \<Rightarrow> setSessionTokens m s)
      else s)"

text \<open>The token counts that BaseChat passes to the input box.\<close>

record tokenDisplay =
  numTokens :: int
  inputTokens :: int
  outputTokens :: int

definition chatInputTokens :: "(message \<Rightarrow> jsstring) \<Rightarrow> engine \<Rightarrow> tokenDisplay" where
  "chatInputTokens gtc s =
     \<lparr>numTokens = sessionTokenCount s,
      inputTokens = orElse (Some (sessionInputTokens s)) (int (localInputTokens gtc s)),
      outputTokens = orElse (Some (sessionOutputTokens s)) (int (localOutputTokens gtc s))\<rparr>"

subsection \<open>filteredMessages\<close>

definition filteredMessages :: "engine \<Rightarrow> message list" where
  "filteredMessages s =
     filter (\<lambda>m. case display m of None \<Rightarrow> True | Some b \<Rightarrow> b)
       (ancestorMessages s @ messages s)"

subsection \<open>Initial state and helpers of types/message.ts\<close>

text \<open>
  The state of the hook on its first render, from the session id, the messages of the
  chat, the local-storage switch and the clock.
\<close>

definition init :: "jsstring \<Rightarrow> message list \<Rightarrow> bool \<Rightarrow> int \<Rightarrow> engine" where
  "init cid msgs els now =
     \<lparr>chat_id = cid, chat_messages = msgs, enableLocalStorage = els, messages = msgs,
      ancestorMessages = [], input = [], chatState = Idle, lastInteractionTime = now,
      sessionTokenCount = 0, sessionInputTokens = 0, sessionOutputTokens = 0,
      powerSaveBlocker = False, timers = [], log = []\<rparr>"

text \<open>
  Modelled from the spec: \<open>createUserMessage\<close> and \<open>getTextContent\<close> of types/message.ts,
  which is not among the sources. A raw string is wrapped into a user message with one
  text block; the text of a message is the text of its text blocks.
\<close>

definition createUserMessage :: "int \<Rightarrow> jsstring \<Rightarrow> message" where
  "createUserMessage t txt =
     \<lparr>id_opt = None, role = User, created = t, content = [TextContent txt],
      display = None, sendToLLM = None\<rparr>"

fun textOf :: "messageContent \<Rightarrow> jsstring" where
  "textOf (TextContent t) = t"
| "textOf _ = []"

definition getTextContent :: "message \<Rightarrow> jsstring" where
  "getTextContent m = concat (map textOf (content m))"

subsection \<open>Notions used to state the properties\<close>

text \<open>What every call of \<open>onStopGoose\<close> does before it looks at the messages.\<close>

definition stopped :: "int \<Rightarrow> engine \<Rightarrow> engine" where
  "stopped t1 s = s\<lparr>chatState := Idle, lastInteractionTime := t1, powerSaveBlocker := False\<rparr>"

text \<open>
  The answer that closes an interrupted tool call, as the specification words it: a tool
  response under the id of the request, with status error, no value, and the message
  "Interrupted by the user to make a correction".
\<close>

definition interrupted :: "jsstring \<Rightarrow> messageContent" where
  "interrupted i =
     ToolResponseMessageContent i
       (ToolCallResult Error None (Some (ascii ''Interrupted by the user to make a correction'')))"

text \<open>
  The ids of the pending tool calls among the blocks of a message, in order: those of its
  tool requests and of its tool confirmation requests, and of no other block.
\<close>

fun requestIds :: "messageContent list \<Rightarrow> jsstring list" where
  "requestIds [] = []"
| "requestIds (ToolRequestMessageContent i tc # cs) = i # requestIds cs"
| "requestIds (ToolConfirmationRequestMessageContent i n a p # cs) = i # requestIds cs"
| "requestIds (TextContent t # cs) = requestIds cs"
| "requestIds (ImageContent d m # cs) = requestIds cs"
| "requestIds (ToolResponseMessageContent i r # cs) = requestIds cs"
| "requestIds (ContextLengthExceededContent t # cs) = requestIds cs"
| "requestIds (SummarizationRequestedContent t # cs) = requestIds cs"

text \<open>The texts of the text blocks of a message, in order.\<close>

fun textBlocks :: "messageContent list \<Rightarrow> jsstring list" where
  "textBlocks [] = []"
| "textBlocks (TextContent t # cs) = t # textBlocks cs"
| "textBlocks (_ # cs) = textBlocks cs"

text \<open>How often the refresh signal has been dispatched.\<close>

definition refreshCount :: "engine \<Rightarrow> nat" where
  "refreshCount s = count_list (log s) streamFinishedEvent"

text \<open>Stream completions one after the other, at the given clock readings.\<close>

definition completions :: "int list \<Rightarrow> engine \<Rightarrow> engine" where
  "completions ts s = foldl (\<lambda>s' t. streamFinished t s') s ts"

text \<open>
  The estimates as the specification words them: summed over the visible conversation,
  the ancestors followed by the tail without the messages hidden from display.
\<close>

definition spec_localTokens :: "(message \<Rightarrow> jsstring) \<Rightarrow> engine \<Rightarrow> nat \<times> nat" where
  "spec_localTokens gtc s = localTokens gtc (filteredMessages s)"

subsection \<open>Example conversations\<close>

definition msg :: "role \<Rightarrow> messageContent list \<Rightarrow> message" where
  "msg r cs =
     \<lparr>id_opt = None, role = r, created = 0, content = cs, display = None, sendToLLM = None\<rparr>"

definition shellCall :: "toolCall toolCallResult" where
  "shellCall = ToolCallResult Success (Some (ToolCall (ascii ''shell'') JNull)) None"

definition exAssistantTools :: engine where
  "exAssistantTools =
     init [] [msg User [TextContent (ascii ''list the files'')],
              msg Assistant [TextContent (ascii ''on it''),
                             ToolRequestMessageContent (ascii ''a'') shellCall,
                             ToolResponseMessageContent (ascii ''z'')
                               (ToolCallResult Success (Some JNull) None),
                             ToolRequestMessageContent (ascii ''b'') shellCall,
                             ToolConfirmationRequestMessageContent (ascii ''c'') (ascii ''shell'')
                               JNull None]] False 0"

definition exUserDraft :: engine where
  "exUserDraft =
     init [] [msg User [TextContent (ascii ''hello'')],
              msg Assistant [TextContent (ascii ''hi'')],
              msg User [ImageContent [] [], TextContent (ascii ''fix the bug'')]] False 0"

definition exConfirmationOnly :: engine where
  "exConfirmationOnly =
     init [] [msg User [ToolConfirmationRequestMessageContent (ascii ''a'') (ascii ''shell'')
                          JNull None]] False 0"

definition exTwoConfirmations :: engine where
  "exTwoConfirmations =
     init [] [msg Assistant [TextContent (ascii ''may I?'')],
              msg User [ToolConfirmationRequestMessageContent (ascii ''a'') (ascii ''shell'')
                          JNull None,
                        ToolConfirmationRequestMessageContent (ascii ''b'') (ascii ''edit'')
                          JNull (Some (ascii ''allow?''))]] False 0"

definition exUserToolResponse :: engine where
  "exUserToolResponse =
     init [] [msg User [TextContent (ascii ''done''),
                        ToolResponseMessageContent (ascii ''a'')
                          (ToolCallResult Success (Some JNull) None)]] False 0"

definition exEmptyUser :: engine where
  "exEmptyUser = init [] [msg Assistant [TextContent (ascii ''hi'')], msg User []] False 0"

text \<open>A text of forty code units.\<close>

definition forty :: jsstring where
  "forty = replicate 40 0x61"

text \<open>
  A conversation after a summary: the earlier user message is among the ancestors, and
  the tail holds a message hidden from display.
\<close>

definition exSummarized :: engine where
  "exSummarized =
     (init [] [(msg Assistant [TextContent (ascii ''a summary'')])\<lparr>display := Some False\<rparr>]
        False 0)\<lparr>ancestorMessages := [msg User [TextContent forty]]\<rparr>"

definition zeroMetadata :: sessionMetadata where
  "zeroMetadata =
     \<lparr>totalTokens = Some 0, accumulatedInputTokens = Some 0, accumulatedOutputTokens = Some 0\<rparr>"

definition someMetadata :: sessionMetadata where
  "someMetadata =
     \<lparr>totalTokens = Some 25, accumulatedInputTokens = Some 25, accumulatedOutputTokens = Some 0\<rparr>"

definition exOneMessage :: engine where
  "exOneMessage = init (ascii ''s1'') [msg User [TextContent forty]] False 0"

definition exSubmitted :: engine where
  "exSubmitted =
     handleSubmit (createUserMessage 1) getTextContent 1 (ascii ''hi'') False (init [] [] False 0)"

definition exNewSession :: engine where
  "exNewSession = init (ascii ''20240101_120000'') [] False 0"

section \<open>Properties\<close>

subsection \<open>The branches of onStopGoose\<close>

lemma lastMessage_Some: "ms \<noteq> [] \<Longrightarrow> lastMessage ms = Some (last ms)"
  by (simp add: lastMessage_def)

lemma butlast_short: "ms \<noteq> [] \<Longrightarrow> \<not> Suc 0 < length ms \<Longrightarrow> butlast ms = []"
  by (cases ms) auto

lemma butlast_single: "length ms = Suc 0 \<Longrightarrow> butlast ms = []"
  by (cases ms) auto

lemma onStopGoose_empty: "messages s = [] \<Longrightarrow> onStopGoose t1 t2 s = stopped t1 s"
  by (simp add: onStopGoose_def lastMessage_def stopped_def stop_def stopPowerSaveBlocker_def)

lemma onStopGoose_user:
  assumes "messages s \<noteq> []" and "isUserMessage (last (messages s))"
    and "\<not> list_ex (\<lambda>c. type_of c = ToolResponse) (content (last (messages s)))"
  shows "onStopGoose t1 t2 s =
           (stopped t1 s)\<lparr>input := textValue (last (messages s)), messages := butlast (messages s)\<rparr>"
  using assms
  by (simp add: onStopGoose_def lastMessage_Some stopped_def stop_def stopPowerSaveBlocker_def
      setInput_def setMessages_def butlast_short Let_def)

lemma onStopGoose_nonuser:
  assumes "messages s \<noteq> []" and "\<not> isUserMessage (last (messages s))"
  shows "onStopGoose t1 t2 s =
           (if toolRequests (last (messages s)) = [] then stopped t1 s
            else (stopped t1 s)\<lparr>messages := messages s
                    @ [responseMessage t2 (toolRequests (last (messages s)))]\<rparr>)"
  using assms
  by (simp add: onStopGoose_def lastMessage_Some stopped_def stop_def stopPowerSaveBlocker_def
      setMessages_def Let_def)

lemma onStopGoose_other:
  assumes "messages s \<noteq> []" and "isUserMessage (last (messages s))"
    and "list_ex (\<lambda>c. type_of c = ToolResponse) (content (last (messages s)))"
  shows "onStopGoose t1 t2 s = stopped t1 s"
  using assms
  by (simp add: onStopGoose_def lastMessage_Some stopped_def stop_def stopPowerSaveBlocker_def
      Let_def)

text \<open>The loop over the pending tool calls, as a map over their ids.\<close>

lemma foldl_pushResponse:
  "foldl pushResponse rm reqs = rm\<lparr>content := content rm @ map interrupted (map fst reqs)\<rparr>"
  by (induction reqs arbitrary: rm)
    (simp_all add: pushResponse_def interrupted_def notification_def)

lemma responseMessage_eq:
  "responseMessage t reqs =
     \<lparr>id_opt = None, role = User, created = t, content = map interrupted (map fst reqs),
      display = Some True, sendToLLM = Some True\<rparr>"
  by (simp add: responseMessage_def foldl_pushResponse)

text \<open>The filter and the map of the code collect exactly the pending ids.\<close>

lemma requestIds_toolRequests: "map fst (toolRequests m) = requestIds (content m)"
proof -
  have "map fst (List.map_filter requestEntry (filter isRequest cs)) = requestIds cs" for cs
  proof (induction cs)
    case Nil
    show ?case by simp
  next
    case (Cons c cs)
    then show ?case by (cases c) (simp_all add: isRequest_def)
  qed
  then show ?thesis by (simp add: toolRequests_def)
qed

lemma toolRequests_Nil_iff: "toolRequests m = [] \<longleftrightarrow> requestIds (content m) = []"
proof -
  have "toolRequests m = [] \<longleftrightarrow> map fst (toolRequests m) = []"
    by simp
  then show ?thesis by (simp only: requestIds_toolRequests)
qed

lemma responseMessage_toolRequests:
  "responseMessage t (toolRequests m) =
     \<lparr>id_opt = None, role = User, created = t,
      content = map interrupted (requestIds (content m)),
      display = Some True, sendToLLM = Some True\<rparr>"
  by (simp only: responseMessage_eq requestIds_toolRequests)

lemma onStopGoose_nonuser_ids:
  assumes "messages s \<noteq> []" and "\<not> isUserMessage (last (messages s))"
  shows "onStopGoose t1 t2 s =
           (if requestIds (content (last (messages s))) = [] then stopped t1 s
            else (stopped t1 s)\<lparr>messages := messages s
                    @ [\<lparr>id_opt = None, role = User, created = t2,
                        content = map interrupted (requestIds (content (last (messages s)))),
                        display = Some True, sendToLLM = Some True\<rparr>]\<rparr>)"
  by (simp only: onStopGoose_nonuser [OF assms] toolRequests_Nil_iff
      responseMessage_toolRequests)

text \<open>In a message of confirmation requests only, every block is a pending tool call.\<close>

lemma requestIds_confirmations:
  "list_all (\<lambda>c. type_of c = ToolConfirmationRequest) cs \<Longrightarrow> length (requestIds cs) = length cs"
proof (induction cs)
  case Nil
  show ?case by simp
next
  case (Cons c cs)
  then show ?case by (cases c) simp_all
qed

text \<open>The text handed back to the input is the first text block, if there is one.\<close>

lemma textValue_textBlocks:
  "textValue m = (case textBlocks (content m) of [] \<Rightarrow> [] | t # _ \<Rightarrow> t)"
proof -
  have "(case find (\<lambda>c. type_of c = Text) cs of Some (TextContent t) \<Rightarrow> t | _ \<Rightarrow> [])
          = (case textBlocks cs of [] \<Rightarrow> [] | t # _ \<Rightarrow> t)" for cs
  proof (induction cs)
    case Nil
    show ?case by simp
  next
    case (Cons c cs)
    then show ?case by (cases c) simp_all
  qed
  then show ?thesis by (simp add: textValue_def)
qed

subsection \<open>Stopping on an assistant message\<close>

text \<open>
  C1. When the last message is an assistant message, \<open>onStopGoose\<close> looks at its tool
  requests and tool confirmation requests, in order. If there are none, the messages
  stay as they are. Otherwise exactly one message is appended behind the unchanged ones:
  it has role user, \<open>display\<close> and \<open>sendToLLM\<close> true, and it holds, in the order of the
  requests, one tool response per request id, with status error and the message
  "Interrupted by the user to make a correction", and no other block.
\<close>

theorem C1_stop_answers_pending_tool_calls:
  assumes "messages s \<noteq> []" and "role (last (messages s)) = Assistant"
  shows "(let ids = requestIds (content (last (messages s)));
              s' = onStopGoose t1 t2 s
          in if ids = [] then messages s' = messages s
             else messages s'
                    = messages s
                      @ [\<lparr>id_opt = None, role = User, created = t2,
                          content =
                            map (\<lambda>i. ToolResponseMessageContent i
                                   (ToolCallResult Error None
                                      (Some (ascii ''Interrupted by the user to make a correction''))))
                              ids,
                          display = Some True, sendToLLM = Some True\<rparr>])"
proof -
  have nu: "\<not> isUserMessage (last (messages s))"
    using assms(2) by (simp add: isUserMessage_def)
  have i: "interrupted = (\<lambda>i. ToolResponseMessageContent i
             (ToolCallResult Error None
                (Some (ascii ''Interrupted by the user to make a correction''))))"
    by (rule ext) (simp add: interrupted_def)
  show ?thesis
    using onStopGoose_nonuser_ids [OF assms(1) nu, of t1 t2]
    by (simp add: Let_def stopped_def i)
qed

theorem C1_stop_answers_pending_tool_calls_witness:
  "messages exAssistantTools \<noteq> [] \<and> role (last (messages exAssistantTools)) = Assistant
   \<and> requestIds (content (last (messages exAssistantTools)))
       = [ascii ''a'', ascii ''b'', ascii ''c'']
   \<and> messages (onStopGoose 7 8 exAssistantTools)
       = messages exAssistantTools
         @ [\<lparr>id_opt = None, role = User, created = 8,
             content =
               [ToolResponseMessageContent (ascii ''a'')
                  (ToolCallResult Error None
                     (Some (ascii ''Interrupted by the user to make a correction''))),
                ToolResponseMessageContent (ascii ''b'')
                  (ToolCallResult Error None
                     (Some (ascii ''Interrupted by the user to make a correction''))),
                ToolResponseMessageContent (ascii ''c'')
                  (ToolCallResult Error None
                     (Some (ascii ''Interrupted by the user to make a correction'')))],
             display = Some True, sendToLLM = Some True\<rparr>]"
proof -
  have h1: "messages exAssistantTools \<noteq> []"
    by (simp add: exAssistantTools_def init_def)
  have h2: "role (last (messages exAssistantTools)) = Assistant"
    by (simp add: exAssistantTools_def init_def msg_def)
  have ids: "requestIds (content (last (messages exAssistantTools)))
               = [ascii ''a'', ascii ''b'', ascii ''c'']"
    by (simp add: exAssistantTools_def init_def msg_def)
  have ne: "[ascii ''a'', ascii ''b'', ascii ''c''] \<noteq> ([] :: jsstring list)"
    by simp
  show ?thesis
    using C1_stop_answers_pending_tool_calls [OF h1 h2, of 7 8] h1 h2 ne
    by (simp add: Let_def ids del: not_Cons_self2)
qed

subsection \<open>Stopping on a user message\<close>

text \<open>
  C2. When the last message has role user, is not made of confirmation requests only and
  holds no tool response, \<open>onStopGoose\<close> hands the text of its first text block to the
  input (the empty string if it has none) and removes exactly that message: a single
  message leaves the empty list, otherwise the messages before the last stay as they are.
\<close>

theorem C2_stop_restores_draft:
  assumes "messages s \<noteq> []" and "role (last (messages s)) = User"
    and "\<not> list_all (\<lambda>c. type_of c = ToolConfirmationRequest) (content (last (messages s)))"
    and "\<not> list_ex (\<lambda>c. type_of c = ToolResponse) (content (last (messages s)))"
  shows "input (onStopGoose t1 t2 s)
           = (case textBlocks (content (last (messages s))) of [] \<Rightarrow> [] | t # _ \<Rightarrow> t)
         \<and> messages (onStopGoose t1 t2 s) = butlast (messages s)
         \<and> (if length (messages s) = 1 then messages (onStopGoose t1 t2 s) = []
            else messages (onStopGoose t1 t2 s) @ [last (messages s)] = messages s)"
proof -
  have u: "isUserMessage (last (messages s))"
    using assms(2,3) by (simp add: isUserMessage_def)
  show ?thesis
    using onStopGoose_user [OF assms(1) u assms(4), of t1 t2] assms(1)
    by (auto simp add: textValue_textBlocks stopped_def butlast_single)
qed

theorem C2_stop_restores_draft_witness:
  "messages exUserDraft \<noteq> [] \<and> role (last (messages exUserDraft)) = User
   \<and> \<not> list_all (\<lambda>c. type_of c = ToolConfirmationRequest) (content (last (messages exUserDraft)))
   \<and> \<not> list_ex (\<lambda>c. type_of c = ToolResponse) (content (last (messages exUserDraft)))
   \<and> input (onStopGoose 7 8 exUserDraft) = ascii ''fix the bug''
   \<and> messages (onStopGoose 7 8 exUserDraft)
       = [msg User [TextContent (ascii ''hello'')], msg Assistant [TextContent (ascii ''hi'')]]"
proof -
  have h1: "messages exUserDraft \<noteq> []"
    by (simp add: exUserDraft_def init_def)
  have h2: "role (last (messages exUserDraft)) = User"
    by (simp add: exUserDraft_def init_def msg_def)
  have h3: "\<not> list_all (\<lambda>c. type_of c = ToolConfirmationRequest)
                (content (last (messages exUserDraft)))"
    by (simp add: exUserDraft_def init_def msg_def)
  have h4: "\<not> list_ex (\<lambda>c. type_of c = ToolResponse) (content (last (messages exUserDraft)))"
    by (simp add: exUserDraft_def init_def msg_def)
  have ms: "messages exUserDraft
              = [msg User [TextContent (ascii ''hello'')], msg Assistant [TextContent (ascii ''hi'')],
                 msg User [ImageContent [] [], TextContent (ascii ''fix the bug'')]]"
    by (simp add: exUserDraft_def init_def)
  have tb: "textBlocks (content (last (messages exUserDraft))) = [ascii ''fix the bug'']"
    by (simp add: ms msg_def)
  show ?thesis
    using C2_stop_restores_draft [OF h1 h2 h3 h4, of 7 8] h1 h2 h3 h4
    by (simp add: tb) (simp add: ms)
qed

subsection \<open>The remaining shapes of the last message\<close>

text \<open>
  A message of role user made of confirmation requests only is not a user message for
  \<open>isUserMessage\<close>, so \<open>onStopGoose\<close> treats it as it treats an assistant message and
  appends the error responses: stopping is not without effect on it.
\<close>

theorem C3_confirmation_only_counterexample:
  "role (last (messages exConfirmationOnly)) = User
   \<and> map type_of (content (last (messages exConfirmationOnly))) = [ToolConfirmationRequest]
   \<and> messages (onStopGoose 7 8 exConfirmationOnly)
       = messages exConfirmationOnly
         @ [\<lparr>id_opt = None, role = User, created = 8,
             content =
               [ToolResponseMessageContent (ascii ''a'')
                  (ToolCallResult Error None
                     (Some (ascii ''Interrupted by the user to make a correction'')))],
             display = Some True, sendToLLM = Some True\<rparr>]
   \<and> messages (onStopGoose 7 8 exConfirmationOnly) \<noteq> messages exConfirmationOnly"
proof -
  have ms: "messages exConfirmationOnly
              = [msg User [ToolConfirmationRequestMessageContent (ascii ''a'') (ascii ''shell'')
                             JNull None]]"
    by (simp add: exConfirmationOnly_def init_def)
  have ne: "messages exConfirmationOnly \<noteq> []"
    by (simp add: ms)
  have nu: "\<not> isUserMessage (last (messages exConfirmationOnly))"
    by (simp add: ms msg_def isUserMessage_def)
  have ids: "requestIds (content (last (messages exConfirmationOnly))) = [ascii ''a'']"
    by (simp add: ms msg_def)
  have st: "messages (onStopGoose 7 8 exConfirmationOnly)
              = messages exConfirmationOnly
                @ [\<lparr>id_opt = None, role = User, created = 8,
                    content = [interrupted (ascii ''a'')],
                    display = Some True, sendToLLM = Some True\<rparr>]"
    by (simp add: onStopGoose_nonuser_ids [OF ne nu] ids stopped_def)
  have shape: "role (last (messages exConfirmationOnly)) = User
               \<and> map type_of (content (last (messages exConfirmationOnly)))
                   = [ToolConfirmationRequest]"
    by (simp add: ms msg_def)
  show ?thesis
    using shape st by (simp add: interrupted_def)
qed

text \<open>
  C3, as the code has it. When the last message has role user, is not made of
  confirmation requests only and holds a tool response, \<open>onStopGoose\<close> performs no
  recovery: the messages and the input stay as they are and nothing is appended. When
  the last message has role user and is made of one or more confirmation requests and
  nothing else, it is not a user message: exactly one message is appended behind the
  unchanged ones, of role user, \<open>display\<close> and \<open>sendToLLM\<close> true, holding one tool
  response per confirmation request, in order and under its id, with status error and
  the message "Interrupted by the user to make a correction"; the input stays as it is.
\<close>

theorem C3_stop_keeps_tool_response_message:
  assumes "messages s \<noteq> []" and "role (last (messages s)) = User"
  shows "(\<not> list_all (\<lambda>c. type_of c = ToolConfirmationRequest) (content (last (messages s)))
          \<and> list_ex (\<lambda>c. type_of c = ToolResponse) (content (last (messages s)))
          \<longrightarrow> onStopGoose t1 t2 s = stopped t1 s
              \<and> messages (onStopGoose t1 t2 s) = messages s
              \<and> input (onStopGoose t1 t2 s) = input s)
         \<and> (content (last (messages s)) \<noteq> []
            \<and> list_all (\<lambda>c. type_of c = ToolConfirmationRequest) (content (last (messages s)))
            \<longrightarrow> \<not> isUserMessage (last (messages s))
                \<and> length (requestIds (content (last (messages s))))
                    = length (content (last (messages s)))
                \<and> messages (onStopGoose t1 t2 s)
                    = messages s
                      @ [\<lparr>id_opt = None, role = User, created = t2,
                          content =
                            map (\<lambda>i. ToolResponseMessageContent i
                                   (ToolCallResult Error None
                                      (Some (ascii ''Interrupted by the user to make a correction''))))
                              (requestIds (content (last (messages s)))),
                          display = Some True, sendToLLM = Some True\<rparr>]
                \<and> input (onStopGoose t1 t2 s) = input s)"
proof (intro conjI impI)
  assume a: "\<not> list_all (\<lambda>c. type_of c = ToolConfirmationRequest) (content (last (messages s)))
             \<and> list_ex (\<lambda>c. type_of c = ToolResponse) (content (last (messages s)))"
  have u: "isUserMessage (last (messages s))"
    using assms(2) a by (simp add: isUserMessage_def)
  have tr: "list_ex (\<lambda>c. type_of c = ToolResponse) (content (last (messages s)))"
    using a by simp
  note step = onStopGoose_other [OF assms(1) u tr, of t1 t2]
  show "onStopGoose t1 t2 s = stopped t1 s"
    by (rule step)
  show "messages (onStopGoose t1 t2 s) = messages s"
    by (simp add: step stopped_def)
  show "input (onStopGoose t1 t2 s) = input s"
    by (simp add: step stopped_def)
next
  assume a: "content (last (messages s)) \<noteq> []
             \<and> list_all (\<lambda>c. type_of c = ToolConfirmationRequest) (content (last (messages s)))"
  show nu: "\<not> isUserMessage (last (messages s))"
    using a by (simp add: isUserMessage_def)
  show len: "length (requestIds (content (last (messages s))))
               = length (content (last (messages s)))"
    using a by (simp add: requestIds_confirmations)
  have ne: "requestIds (content (last (messages s))) \<noteq> []"
    using a len by auto
  have i: "interrupted = (\<lambda>i. ToolResponseMessageContent i
             (ToolCallResult Error None
                (Some (ascii ''Interrupted by the user to make a correction''))))"
    by (rule ext) (simp add: interrupted_def)
  note step = onStopGoose_nonuser_ids [OF assms(1) nu, of t1 t2]
  show "messages (onStopGoose t1 t2 s)
          = messages s
            @ [\<lparr>id_opt = None, role = User, created = t2,
                content =
                  map (\<lambda>i. ToolResponseMessageContent i
                         (ToolCallResult Error None
                            (Some (ascii ''Interrupted by the user to make a correction''))))
                    (requestIds (content (last (messages s)))),
                display = Some True, sendToLLM = Some True\<rparr>]"
    using step ne by (simp add: stopped_def i)
  show "input (onStopGoose t1 t2 s) = input s"
    using step ne by (simp add: stopped_def)
qed

theorem C3_stop_keeps_tool_response_message_witness:
  "messages exUserToolResponse \<noteq> [] \<and> role (last (messages exUserToolResponse)) = User
   \<and> \<not> list_all (\<lambda>c. type_of c = ToolConfirmationRequest)
         (content (last (messages exUserToolResponse)))
   \<and> list_ex (\<lambda>c. type_of c = ToolResponse) (content (last (messages exUserToolResponse)))
   \<and> messages (onStopGoose 7 8 exUserToolResponse) = messages exUserToolResponse
   \<and> input (onStopGoose 7 8 exUserToolResponse) = []
   \<and> messages exTwoConfirmations \<noteq> [] \<and> role (last (messages exTwoConfirmations)) = User
   \<and> content (last (messages exTwoConfirmations)) \<noteq> []
   \<and> list_all (\<lambda>c. type_of c = ToolConfirmationRequest)
        (content (last (messages exTwoConfirmations)))
   \<and> messages (onStopGoose 7 8 exTwoConfirmations)
       = messages exTwoConfirmations
         @ [\<lparr>id_opt = None, role = User, created = 8,
             content =
               [ToolResponseMessageContent (ascii ''a'')
                  (ToolCallResult Error None
                     (Some (ascii ''Interrupted by the user to make a correction''))),
                ToolResponseMessageContent (ascii ''b'')
                  (ToolCallResult Error None
                     (Some (ascii ''Interrupted by the user to make a correction'')))],
             display = Some True, sendToLLM = Some True\<rparr>]
   \<and> input (onStopGoose 7 8 exTwoConfirmations) = []"
proof -
  have h1: "messages exUserToolResponse \<noteq> []"
    by (simp add: exUserToolResponse_def init_def)
  have h2: "role (last (messages exUserToolResponse)) = User"
    by (simp add: exUserToolResponse_def init_def msg_def)
  have h3: "\<not> list_all (\<lambda>c. type_of c = ToolConfirmationRequest)
                (content (last (messages exUserToolResponse)))"
    by (simp add: exUserToolResponse_def init_def msg_def)
  have h4: "list_ex (\<lambda>c. type_of c = ToolResponse) (content (last (messages exUserToolResponse)))"
    by (simp add: exUserToolResponse_def init_def msg_def)
  have i1: "input exUserToolResponse = []"
    by (simp add: exUserToolResponse_def init_def)
  have first: "messages (onStopGoose 7 8 exUserToolResponse) = messages exUserToolResponse
               \<and> input (onStopGoose 7 8 exUserToolResponse) = []"
    using C3_stop_keeps_tool_response_message [OF h1 h2, of 7 8] h3 h4 i1
    by (simp add: stopped_def)
  have k1: "messages exTwoConfirmations \<noteq> []"
    by (simp add: exTwoConfirmations_def init_def)
  have k2: "role (last (messages exTwoConfirmations)) = User"
    by (simp add: exTwoConfirmations_def init_def msg_def)
  have k3: "content (last (messages exTwoConfirmations)) \<noteq> []"
    by (simp add: exTwoConfirmations_def init_def msg_def)
  have k4: "list_all (\<lambda>c. type_of c = ToolConfirmationRequest)
              (content (last (messages exTwoConfirmations)))"
    by (simp add: exTwoConfirmations_def init_def msg_def)
  have ids: "requestIds (content (last (messages exTwoConfirmations))) = [ascii ''a'', ascii ''b'']"
    by (simp add: exTwoConfirmations_def init_def msg_def)
  have i2: "input exTwoConfirmations = []"
    by (simp add: exTwoConfirmations_def init_def)
  have second: "messages (onStopGoose 7 8 exTwoConfirmations)
       = messages exTwoConfirmations
         @ [\<lparr>id_opt = None, role = User, created = 8,
             content =
               [ToolResponseMessageContent (ascii ''a'')
                  (ToolCallResult Error None
                     (Some (ascii ''Interrupted by the user to make a correction''))),
                ToolResponseMessageContent (ascii ''b'')
                  (ToolCallResult Error None
                     (Some (ascii ''Interrupted by the user to make a correction'')))],
             display = Some True, sendToLLM = Some True\<rparr>]
       \<and> input (onStopGoose 7 8 exTwoConfirmations) = []"
    using C3_stop_keeps_tool_response_message [OF k1 k2, of 7 8] k3 k4 i2 by (simp add: ids)
  show ?thesis
    using h1 h2 h3 h4 first k1 k2 k3 k4 second by simp
qed

text \<open>
  C10. A message of role user without content blocks is not a user message, since the
  test that all blocks are confirmation requests holds of the empty list. When it is the
  last message, \<open>onStopGoose\<close> restores no text, removes nothing and appends nothing.
\<close>

theorem C10_empty_user_message_is_not_user:
  assumes "role m = User" and "content m = []"
  shows "\<not> isUserMessage m
         \<and> (\<forall>s t1 t2. messages s \<noteq> [] \<and> last (messages s) = m
               \<longrightarrow> onStopGoose t1 t2 s = stopped t1 s
                   \<and> messages (onStopGoose t1 t2 s) = messages s
                   \<and> input (onStopGoose t1 t2 s) = input s)"
proof -
  have nu: "\<not> isUserMessage m"
    using assms by (simp add: isUserMessage_def)
  have tr: "toolRequests m = []"
    using assms(2) by (simp add: toolRequests_Nil_iff)
  show ?thesis
    using nu tr by (auto simp add: onStopGoose_nonuser stopped_def)
qed

theorem C10_empty_user_message_is_not_user_witness:
  "role (msg User []) = User \<and> content (msg User []) = []
   \<and> \<not> isUserMessage (msg User [])
   \<and> messages exEmptyUser \<noteq> [] \<and> last (messages exEmptyUser) = msg User []
   \<and> messages (onStopGoose 7 8 exEmptyUser) = messages exEmptyUser
   \<and> input (onStopGoose 7 8 exEmptyUser) = input exEmptyUser"
proof -
  have h1: "role (msg User []) = User" by (simp add: msg_def)
  have h2: "content (msg User []) = []" by (simp add: msg_def)
  have h3: "messages exEmptyUser \<noteq> [] \<and> last (messages exEmptyUser) = msg User []"
    by (simp add: exEmptyUser_def init_def)
  note c10 = C10_empty_user_message_is_not_user [OF h1 h2]
  have nu: "\<not> isUserMessage (msg User [])"
    using c10 by simp
  have st: "messages (onStopGoose 7 8 exEmptyUser) = messages exEmptyUser
            \<and> input (onStopGoose 7 8 exEmptyUser) = input exEmptyUser"
    using c10 h3 by blast
  show ?thesis
    using h1 h2 h3 nu st by simp
qed

subsection \<open>The filtered view\<close>

lemma shown_iff: "(case display m of None \<Rightarrow> True | Some b \<Rightarrow> b) \<longleftrightarrow> display m \<noteq> Some False"
  by (cases "display m") auto

text \<open>
  C4. \<open>filteredMessages\<close> is the ancestors followed by the tail, each without the
  messages whose \<open>display\<close> is explicitly false: a message is in the view exactly when it
  is in one of the two lists and its \<open>display\<close> is not false, and the view is a
  subsequence of the concatenation, so the order of what remains is kept.
\<close>

theorem C4_filtered_view:
  "filteredMessages s
     = filter (\<lambda>m. display m \<noteq> Some False) (ancestorMessages s)
       @ filter (\<lambda>m. display m \<noteq> Some False) (messages s)
   \<and> set (filteredMessages s)
       = {m \<in> set (ancestorMessages s) \<union> set (messages s). display m \<noteq> Some False}
   \<and> subseq (filteredMessages s) (ancestorMessages s @ messages s)"
proof -
  have eq: "filteredMessages s
              = filter (\<lambda>m. display m \<noteq> Some False) (ancestorMessages s @ messages s)"
    by (simp add: filteredMessages_def shown_iff)
  have sub: "subseq (filteredMessages s) (ancestorMessages s @ messages s)"
    unfolding eq by (rule subseq_filter_left)
  show ?thesis
    using sub eq by auto
qed

subsection \<open>Submitting\<close>

lemma dropWhile_all: "(\<forall>x\<in>set (dropWhile P xs). P x) \<longleftrightarrow> (\<forall>x\<in>set xs. P x)"
  by (induction xs) auto

lemma trim_Nil_iff: "trim s = [] \<longleftrightarrow> list_all isWhiteSpace s"
  by (simp add: trim_def dropWhile_eq_Nil_conv dropWhile_all list_all_iff)

lemma messages_emit [simp]: "messages (emit e s) = messages s"
  by (simp add: emit_def)

lemma messages_storeMessageInHistory [simp]: "messages (storeMessageInHistory gtc m s) = messages s"
  by (simp add: storeMessageInHistory_def Let_def)

lemma messages_append_msg [simp]:
  "messages (append_msg cum gtc fresh (Inr m) s) = messages s @ [m]"
  by (simp add: append_msg_def originalAppend_def Let_def)

lemma chatState_append_msg [simp]:
  "chatState (append_msg cum gtc fresh mos s) = Streaming"
  by (simp add: append_msg_def originalAppend_def Let_def)

lemma messages_fireTimer [simp]:
  "messages (fireTimer cum gtc t s) = messages s @ [userMessage t]"
  by (simp add: fireTimer_def)

lemma messages_foldl_fireTimer:
  "messages (foldl (\<lambda>s' t. fireTimer cum gtc t s') s ts) = messages s @ map userMessage ts"
  by (induction ts arbitrary: s) simp_all

lemma messages_runTimers:
  "messages (runTimers cum gtc s) = messages s @ map userMessage (timers s)"
  by (simp add: runTimers_def messages_foldl_fireTimer)

text \<open>
  C5. On a text that is empty or all whitespace, \<open>handleSubmit\<close> only releases the power
  save blocker: no message is appended, no stream is opened, nothing else changes. On any
  other text the user message built from the trimmed text is appended, at once and with
  a stream opened when no summary reset is pending, and otherwise by the timer that
  \<open>handleSubmit\<close> sets.
\<close>

theorem C5_submit_blank_or_not:
  "(list_all isWhiteSpace txt \<longrightarrow>
      handleSubmit cum gtc now txt reset s = s\<lparr>powerSaveBlocker := False\<rparr>)
   \<and> (\<not> list_all isWhiteSpace txt \<and> \<not> reset \<longrightarrow>
        messages (handleSubmit cum gtc now txt reset s) = messages s @ [cum (trim txt)]
        \<and> chatState (handleSubmit cum gtc now txt reset s) = Streaming)
   \<and> (\<not> list_all isWhiteSpace txt \<and> reset \<longrightarrow>
        timers (handleSubmit cum gtc now txt reset s)
          = timers s @ [\<lparr>delay = 150, userMessage = cum (trim txt), firstOfSession = newSession s\<rparr>]
        \<and> messages (runTimers cum gtc (handleSubmit cum gtc now txt reset s))
          = messages s @ map userMessage (timers s) @ [cum (trim txt)])"
proof (intro conjI impI)
  assume "list_all isWhiteSpace txt"
  then show "handleSubmit cum gtc now txt reset s = s\<lparr>powerSaveBlocker := False\<rparr>"
    by (simp add: handleSubmit_def trim_Nil_iff stopPowerSaveBlocker_def)
next
  assume a: "\<not> list_all isWhiteSpace txt \<and> \<not> reset"
  then have ne: "trim txt \<noteq> []" by (simp add: trim_Nil_iff)
  from a ne show "messages (handleSubmit cum gtc now txt reset s) = messages s @ [cum (trim txt)]"
    by (simp add: handleSubmit_def Let_def startPowerSaveBlocker_def)
  from a ne show "chatState (handleSubmit cum gtc now txt reset s) = Streaming"
    by (simp add: handleSubmit_def Let_def emit_def)
next
  assume a: "\<not> list_all isWhiteSpace txt \<and> reset"
  then have ne: "trim txt \<noteq> []" by (simp add: trim_Nil_iff)
  from a ne show "timers (handleSubmit cum gtc now txt reset s)
          = timers s @ [\<lparr>delay = 150, userMessage = cum (trim txt), firstOfSession = newSession s\<rparr>]"
    by (simp add: handleSubmit_def Let_def startPowerSaveBlocker_def emit_def)
  from a ne show "messages (runTimers cum gtc (handleSubmit cum gtc now txt reset s))
          = messages s @ map userMessage (timers s) @ [cum (trim txt)]"
    by (simp add: messages_runTimers) (simp add: handleSubmit_def Let_def startPowerSaveBlocker_def emit_def)
qed

theorem C5_submit_blank_or_not_witness:
  "list_all isWhiteSpace (ascii ''   '')
   \<and> handleSubmit (createUserMessage 5) getTextContent 5 (ascii ''   '') False
         (startPowerSaveBlocker (init [] [] False 0))
       = init [] [] False 0
   \<and> \<not> list_all isWhiteSpace (ascii '' hi '')
   \<and> messages (handleSubmit (createUserMessage 5) getTextContent 5 (ascii '' hi '') False
         (init [] [] False 0))
       = [createUserMessage 5 (ascii ''hi'')]
   \<and> messages (runTimers (createUserMessage 5) getTextContent
         (handleSubmit (createUserMessage 5) getTextContent 5 (ascii '' hi '') True
           (init [] [] False 0)))
       = [createUserMessage 5 (ascii ''hi'')]"
proof -
  have blank: "list_all isWhiteSpace (ascii ''   '')"
    by (simp add: ascii_def isWhiteSpace_def)
  have nonblank: "\<not> list_all isWhiteSpace (ascii '' hi '')"
    by (simp add: ascii_def isWhiteSpace_def)
  have tr: "trim (ascii '' hi '') = ascii ''hi''"
    by (simp add: ascii_def trim_def isWhiteSpace_def)
  have i: "messages (init [] [] False 0) = [] \<and> timers (init [] [] False 0) = []"
    by (simp add: init_def)
  have b: "(startPowerSaveBlocker (init [] [] False 0))\<lparr>powerSaveBlocker := False\<rparr>
             = init [] [] False 0"
    by (simp add: init_def startPowerSaveBlocker_def)
  show ?thesis
    using C5_submit_blank_or_not [of "ascii ''   ''" "createUserMessage 5" getTextContent 5 False
        "startPowerSaveBlocker (init [] [] False 0)"]
      C5_submit_blank_or_not [of "ascii '' hi ''" "createUserMessage 5" getTextContent 5 False
        "init [] [] False 0"]
      C5_submit_blank_or_not [of "ascii '' hi ''" "createUserMessage 5" getTextContent 5 True
        "init [] [] False 0"]
      blank nonblank
    by (simp add: tr i b)
qed

subsection \<open>Local token estimates\<close>

lemma estimateTokens_div: "estimateTokens txt = (length txt + 3) div 4"
proof -
  have "\<lceil>real (length txt) / 4\<rceil> = \<lceil>of_int (int (length txt)) / (of_int 4 :: real)\<rceil>"
    by simp
  also have "\<dots> = - (- int (length txt) div 4)"
    by (rule ceiling_divide_eq_div)
  finally show ?thesis
    by (simp add: estimateTokens_def)
qed

lemma estimateTokens_Nil [simp]: "estimateTokens [] = 0"
  by (simp add: estimateTokens_def)

lemma countTokens_step:
  "countTokens gtc acc m =
     (if role m = User then (fst acc + estimateTokens (gtc m), snd acc)
      else (fst acc, snd acc + estimateTokens (gtc m)))"
  by (cases "role m") (simp_all add: countTokens_def Let_def)

lemma foldl_countTokens:
  "foldl (countTokens gtc) acc msgs =
     (fst acc + sum_list (map (\<lambda>m. estimateTokens (gtc m)) (filter (\<lambda>m. role m = User) msgs)),
      snd acc + sum_list (map (\<lambda>m. estimateTokens (gtc m)) (filter (\<lambda>m. role m = Assistant) msgs)))"
proof (induction msgs arbitrary: acc)
  case Nil
  show ?case by simp
next
  case (Cons m msgs)
  have "foldl (countTokens gtc) acc (m # msgs) = foldl (countTokens gtc) (countTokens gtc acc m) msgs"
    by simp
  also have "\<dots> =
     (fst (countTokens gtc acc m)
        + sum_list (map (\<lambda>m. estimateTokens (gtc m)) (filter (\<lambda>m. role m = User) msgs)),
      snd (countTokens gtc acc m)
        + sum_list (map (\<lambda>m. estimateTokens (gtc m)) (filter (\<lambda>m. role m = Assistant) msgs)))"
    by (rule Cons.IH)
  also have "\<dots> =
     (fst acc + sum_list (map (\<lambda>m. estimateTokens (gtc m)) (filter (\<lambda>m. role m = User) (m # msgs))),
      snd acc + sum_list (map (\<lambda>m. estimateTokens (gtc m)) (filter (\<lambda>m. role m = Assistant) (m # msgs))))"
    by (cases "role m") (simp_all add: countTokens_step)
  finally show ?case .
qed

text \<open>
  The local estimates are computed from the tail alone: the ancestors do not count, and
  a message hidden from display does. On a summarized conversation they differ from the
  sums over the visible conversation.
\<close>

theorem C6_visible_conversation_counterexample:
  "localInputTokens getTextContent exSummarized = 0
   \<and> localOutputTokens getTextContent exSummarized = 3
   \<and> spec_localTokens getTextContent exSummarized = (10, 0)
   \<and> localTokens getTextContent (ancestorMessages exSummarized @ messages exSummarized) = (10, 3)"
proof -
  have e40: "estimateTokens forty = 10"
    by (simp add: estimateTokens_div forty_def)
  have e9: "estimateTokens (ascii ''a summary'') = 3"
    by (simp add: estimateTokens_div ascii_def)
  have ms: "messages exSummarized
              = [(msg Assistant [TextContent (ascii ''a summary'')])\<lparr>display := Some False\<rparr>]"
    by (simp add: exSummarized_def init_def)
  have fm: "filteredMessages exSummarized = [msg User [TextContent forty]]"
    by (simp add: filteredMessages_def exSummarized_def init_def msg_def)
  have an: "ancestorMessages exSummarized = [msg User [TextContent forty]]"
    by (simp add: exSummarized_def init_def)
  have g1: "getTextContent (msg User [TextContent forty]) = forty"
    by (simp add: getTextContent_def msg_def)
  have g2: "getTextContent ((msg Assistant [TextContent (ascii ''a summary'')])\<lparr>display := Some False\<rparr>)
              = ascii ''a summary''"
    by (simp add: getTextContent_def msg_def)
  have r1: "role (msg User [TextContent forty]) = User"
    by (simp add: msg_def)
  have r2: "role ((msg Assistant [TextContent (ascii ''a summary'')])\<lparr>display := Some False\<rparr>)
              = Assistant"
    by (simp add: msg_def)
  show ?thesis
    by (simp add: localInputTokens_def localOutputTokens_def spec_localTokens_def localTokens_def
        ms fm an countTokens_step g1 g2 r1 r2 e40 e9)
qed

text \<open>
  C6, as the code has it. The estimate of a text is the ceiling of a quarter of its length, so ten
  for a text of length forty; the local input and output estimates are the estimates
  summed over the user messages and over the assistant messages of the tail.
\<close>

theorem C6_local_estimates:
  "estimateTokens txt = (length txt + 3) div 4
   \<and> real (length txt) / 4 \<le> real (estimateTokens txt)
   \<and> real (estimateTokens txt) < real (length txt) / 4 + 1
   \<and> (length txt = 40 \<longrightarrow> estimateTokens txt = 10)
   \<and> localInputTokens gtc s
       = sum_list (map (\<lambda>m. estimateTokens (gtc m)) (filter (\<lambda>m. role m = User) (messages s)))
   \<and> localOutputTokens gtc s
       = sum_list (map (\<lambda>m. estimateTokens (gtc m)) (filter (\<lambda>m. role m = Assistant) (messages s)))"
proof -
  have d: "estimateTokens txt = (length txt + 3) div 4"
    by (rule estimateTokens_div)
  have lo: "real (length txt) / 4 \<le> real (estimateTokens txt)"
    by (simp add: estimateTokens_def)
  have hi: "real (estimateTokens txt) < real (length txt) / 4 + 1"
    by (simp add: estimateTokens_def) linarith
  have forty: "length txt = 40 \<longrightarrow> estimateTokens txt = 10"
    by (simp add: d)
  have io: "localTokens gtc (messages s)
      = (sum_list (map (\<lambda>m. estimateTokens (gtc m)) (filter (\<lambda>m. role m = User) (messages s))),
         sum_list (map (\<lambda>m. estimateTokens (gtc m)) (filter (\<lambda>m. role m = Assistant) (messages s))))"
    by (simp add: localTokens_def foldl_countTokens)
  show ?thesis
    using d lo hi forty io by (simp add: localInputTokens_def localOutputTokens_def)
qed

theorem C6_local_estimates_witness:
  "length forty = 40 \<and> estimateTokens forty = 10
   \<and> localInputTokens getTextContent exOneMessage = 10
   \<and> localOutputTokens getTextContent exOneMessage = 0"
proof -
  have l: "length forty = 40" by (simp add: forty_def)
  have ms: "messages exOneMessage = [msg User [TextContent forty]]"
    by (simp add: exOneMessage_def init_def)
  have g: "getTextContent (msg User [TextContent forty]) = forty"
    by (simp add: getTextContent_def msg_def)
  have e: "estimateTokens forty = 10"
    using C6_local_estimates [of forty getTextContent exOneMessage] l by simp
  show ?thesis
    using C6_local_estimates [of forty getTextContent exOneMessage] l e
    by (simp add: ms g) (simp add: msg_def)
qed

subsection \<open>Displayed token counts\<close>

text \<open>
  An authoritative count of zero does not take precedence: the input box then shows the
  local estimate.
\<close>

theorem C7_zero_metadata_counterexample:
  "sessionInputTokens (onSessionMetadata (Some zeroMetadata) exOneMessage) = 0
   \<and> localInputTokens getTextContent (onSessionMetadata (Some zeroMetadata) exOneMessage) = 10
   \<and> inputTokens (chatInputTokens getTextContent (onSessionMetadata (Some zeroMetadata) exOneMessage))
       = 10"
proof -
  have e40: "estimateTokens forty = 10"
    by (simp add: estimateTokens_div forty_def)
  have g1: "getTextContent (msg User [TextContent forty]) = forty"
    by (simp add: getTextContent_def msg_def)
  have r1: "role (msg User [TextContent forty]) = User"
    by (simp add: msg_def)
  have ms: "messages (onSessionMetadata (Some zeroMetadata) exOneMessage)
              = [msg User [TextContent forty]]"
    by (simp add: onSessionMetadata_def setSessionTokens_def exOneMessage_def init_def)
  have si: "sessionInputTokens (onSessionMetadata (Some zeroMetadata) exOneMessage) = 0"
    by (simp add: onSessionMetadata_def setSessionTokens_def zeroMetadata_def orElse_def)
  have li: "localInputTokens getTextContent (onSessionMetadata (Some zeroMetadata) exOneMessage) = 10"
    by (simp add: localInputTokens_def localTokens_def ms countTokens_step g1 r1 e40)
  show ?thesis
    using si li by (simp add: chatInputTokens_def orElse_def)
qed

text \<open>
  C7, as the code has it. After metadata has been received, from the stream or from the session
  details, the total shown is the authoritative one (zero when the field is missing);
  the input and output counts shown are the authoritative ones when these are not zero,
  and the local estimates when they are zero or missing.
\<close>

theorem C7_displayed_tokens:
  "(let s' = onSessionMetadata (Some md) s; d = chatInputTokens gtc s'
    in numTokens d = (case totalTokens md of None \<Rightarrow> 0 | Some n \<Rightarrow> n)
       \<and> (\<forall>n. accumulatedInputTokens md = Some n \<and> n \<noteq> 0 \<longrightarrow> inputTokens d = n)
       \<and> (accumulatedInputTokens md = None \<or> accumulatedInputTokens md = Some 0
             \<longrightarrow> inputTokens d = int (localInputTokens gtc s))
       \<and> (\<forall>n. accumulatedOutputTokens md = Some n \<and> n \<noteq> 0 \<longrightarrow> outputTokens d = n)
       \<and> (accumulatedOutputTokens md = None \<or> accumulatedOutputTokens md = Some 0
             \<longrightarrow> outputTokens d = int (localOutputTokens gtc s))
       \<and> (chat_id s \<noteq> [] \<longrightarrow> fetchSessionTokens (Some md) s = s'))"
  by (auto simp add: Let_def onSessionMetadata_def fetchSessionTokens_def setSessionTokens_def
      chatInputTokens_def orElse_def localInputTokens_def localOutputTokens_def
      split: option.splits)

theorem C7_displayed_tokens_witness:
  "accumulatedInputTokens someMetadata = Some 25 \<and> accumulatedOutputTokens someMetadata = Some 0
   \<and> chat_id exOneMessage \<noteq> []
   \<and> inputTokens (chatInputTokens getTextContent (onSessionMetadata (Some someMetadata) exOneMessage))
       = 25
   \<and> outputTokens (chatInputTokens getTextContent (onSessionMetadata (Some someMetadata) exOneMessage))
       = int (localOutputTokens getTextContent exOneMessage)
   \<and> fetchSessionTokens (Some someMetadata) exOneMessage
       = onSessionMetadata (Some someMetadata) exOneMessage"
proof -
  have h1: "accumulatedInputTokens someMetadata = Some 25"
    by (simp add: someMetadata_def)
  have h2: "accumulatedOutputTokens someMetadata = Some 0"
    by (simp add: someMetadata_def)
  have h3: "chat_id exOneMessage \<noteq> []"
    by (simp add: exOneMessage_def init_def ascii_def)
  show ?thesis
    using C7_displayed_tokens [of someMetadata exOneMessage getTextContent] h1 h2 h3
    by (simp add: Let_def)
qed

subsection \<open>The power save blocker\<close>

lemma powerSaveBlocker_onFinish: "\<not> powerSaveBlocker (onFinish now s)"
  by (simp add: onFinish_def Let_def emit_def stopPowerSaveBlocker_def)

lemma powerSaveBlocker_streamFinished: "\<not> powerSaveBlocker (streamFinished now s)"
  by (simp add: streamFinished_def powerSaveBlocker_onFinish)

lemma powerSaveBlocker_stopped [simp]: "\<not> powerSaveBlocker (stopped t s)"
  by (simp add: stopped_def)

lemma powerSaveBlocker_onStopGoose: "\<not> powerSaveBlocker (onStopGoose t1 t2 s)"
proof (cases "messages s = []")
  case True
  then show ?thesis by (simp add: onStopGoose_empty)
next
  case ne: False
  show ?thesis
  proof (cases "isUserMessage (last (messages s))")
    case False
    then show ?thesis using ne by (simp add: onStopGoose_nonuser)
  next
    case u: True
    show ?thesis
    proof (cases "list_ex (\<lambda>c. type_of c = ToolResponse) (content (last (messages s)))")
      case True
      then show ?thesis using ne u by (simp add: onStopGoose_other)
    next
      case False
      then show ?thesis using ne u by (simp add: onStopGoose_user)
    qed
  qed
qed

lemma powerSaveBlocker_streamFailed: "powerSaveBlocker (streamFailed s) = powerSaveBlocker s"
  by (simp add: streamFailed_def onError_def)

text \<open>
  C8. After a submission the blocker is held. A completed stream and a stop release it;
  a failed stream does not: \<open>onError\<close> only writes to the console, and the blocker stays
  held in the terminal state Error.
\<close>

theorem C8_error_keeps_blocker:
  "powerSaveBlocker exSubmitted
   \<and> \<not> powerSaveBlocker (streamFinished 2 exSubmitted)
   \<and> \<not> powerSaveBlocker (onStopGoose 2 3 exSubmitted)
   \<and> powerSaveBlocker (streamFailed exSubmitted)
   \<and> chatState (streamFailed exSubmitted) = Failed"
proof -
  have tr: "trim (ascii ''hi'') = ascii ''hi''"
    by (simp add: ascii_def trim_def isWhiteSpace_def)
  have ne: "ascii ''hi'' \<noteq> []"
    by (simp add: ascii_def)
  have held: "powerSaveBlocker exSubmitted"
    by (simp add: exSubmitted_def handleSubmit_def tr ne Let_def emit_def append_msg_def
        originalAppend_def storeMessageInHistory_def startPowerSaveBlocker_def init_def)
  show ?thesis
    using held
    by (simp add: powerSaveBlocker_streamFinished powerSaveBlocker_onStopGoose
        powerSaveBlocker_streamFailed) (simp add: streamFailed_def)
qed

subsection \<open>The refresh signal\<close>

lemma chat_id_streamFinished [simp]: "chat_id (streamFinished t s) = chat_id s"
  by (simp add: streamFinished_def onFinish_def Let_def emit_def stopPowerSaveBlocker_def)

lemma streamFinishedEvent_neq [simp]:
  "ShowNotification \<noteq> streamFinishedEvent" "OnMessageStreamFinish \<noteq> streamFinishedEvent"
  by (simp_all add: streamFinishedEvent_def)

lemma refreshCount_streamFinished:
  "refreshCount (streamFinished t s)
     = (if isNewSession (chat_id s) then refreshCount s + 1 else refreshCount s)"
  by (simp add: refreshCount_def streamFinished_def onFinish_def Let_def emit_def
      stopPowerSaveBlocker_def)

lemma refreshCount_completions:
  "refreshCount (completions ts s)
     = (if isNewSession (chat_id s) then refreshCount s + length ts else refreshCount s)"
proof -
  have "refreshCount (foldl (\<lambda>s' t. streamFinished t s') s ts)
          = (if isNewSession (chat_id s) then refreshCount s + length ts else refreshCount s)
        \<and> chat_id (foldl (\<lambda>s' t. streamFinished t s') s ts) = chat_id s"
    by (induction ts arbitrary: s) (simp_all add: refreshCount_streamFinished)
  then show ?thesis by (simp add: completions_def)
qed
lemma isNewSession_example: "isNewSession (ascii ''20240101_120000'')"
  by (simp add: isNewSession_def ascii_def isDigit_def)

text \<open>
  The signal is not limited to the first completion: the second one dispatches it again.
\<close>

theorem C9_second_completion_counterexample:
  "isNewSession (chat_id exNewSession)
   \<and> refreshCount (streamFinished 1 exNewSession) = 1
   \<and> refreshCount (streamFinished 2 (streamFinished 1 exNewSession)) = 2"
proof -
  have h: "isNewSession (chat_id exNewSession)"
    by (simp add: exNewSession_def init_def isNewSession_example)
  have z: "refreshCount exNewSession = 0"
    by (simp add: exNewSession_def init_def refreshCount_def)
  show ?thesis
    using h z by (simp add: refreshCount_streamFinished)
qed

text \<open>
  C9, as the code has it. While the session id has the date-time format, every stream completion
  dispatches the refresh signal once: after \<open>n\<close> completions it has been dispatched \<open>n\<close>
  more times.
\<close>

theorem C9_refresh_on_every_completion:
  assumes "isNewSession (chat_id s)"
  shows "refreshCount (streamFinished t s) = refreshCount s + 1
         \<and> refreshCount (completions ts s) = refreshCount s + length ts"
  using assms by (simp add: refreshCount_streamFinished refreshCount_completions)

theorem C9_refresh_on_every_completion_witness:
  "isNewSession (chat_id exNewSession)
   \<and> refreshCount exNewSession = 0
   \<and> refreshCount (streamFinished 1 exNewSession) = 1
   \<and> refreshCount (completions [1, 2, 3] exNewSession) = 3"
proof -
  have h: "isNewSession (chat_id exNewSession)"
    by (simp add: exNewSession_def init_def isNewSession_example)
  have z: "refreshCount exNewSession = 0"
    by (simp add: exNewSession_def init_def refreshCount_def)
  show ?thesis
    using C9_refresh_on_every_completion [OF h, of 1 "[1, 2, 3]"] h z by simp
qed

end
